theory Spec2Isabelle
  imports Complex_Main
begin

section \<open>Python values and built-ins used by the driver\<close>

text \<open>
  The driver gives \<open>str\<close> values to the serial port and compares what it reads with
  \<open>str\<close> literals, as Python 2 does, where \<open>str\<close> is a byte string: it is
  modelled as \<^typ>\<open>string\<close>. The driver ends every frame with a carriage return, and
  removes the last two characters of every line it reads: the controller ends its
  replies with carriage return and line feed.
\<close>

abbreviation CR :: char where
  "CR \<equiv> CHR 0x0D"

abbreviation LF :: char where
  "LF \<equiv> CHR 0x0A"

text \<open>\<open>str(n)\<close> for an integer: the decimal numeral, with a minus sign when negative.\<close>

definition digit_char :: "nat \<Rightarrow> char" where
  "digit_char d = ''0123456789'' ! d"

function str_nat :: "nat \<Rightarrow> string" where
  "str_nat n = (if n < 10 then [digit_char n] else str_nat (n div 10) @ [digit_char (n mod 10)])"
  by pat_completeness auto
termination
  by (relation "measure (\<lambda>n. n)") auto

declare str_nat.simps [simp del]

definition str_int :: "int \<Rightarrow> string" where
  "str_int i = (if i < 0 then CHR ''-'' # str_nat (nat (- i)) else str_nat (nat i))"

text \<open>
  \<open>string.split(',')\<close>: the fields between the separators, in order. The result is
  never empty: a string with \<open>n\<close> separators has \<open>n + 1\<close> fields.
\<close>

fun split :: "char \<Rightarrow> string \<Rightarrow> string list" where
  "split sep [] = [[]]"
| "split sep (c # cs) =
     (if c = sep then [] # split sep cs
      else (case split sep cs of
              [] \<Rightarrow> [[c]]
            | w # ws \<Rightarrow> (c # w) # ws))"

text \<open>
  The exceptions the modelled code raises. \<open>IndexError\<close>, \<open>KeyError\<close> and
  \<open>ValueError\<close> are Python's built-in ones (an index out of range, a missing
  dictionary key, a string that \<open>int\<close> or \<open>float\<close> cannot parse);
  \<open>RuntimeError\<close> carries its message; \<open>NewportError\<close> is the driver's own class.
\<close>

record NewportError =
  err_string :: string
  err_axis :: "string option"
  err_code :: string
  err_timestamp :: string
  err_message :: string

datatype py_exn =
    IndexError
  | KeyError
  | ValueError
  | RuntimeError string
  | NewportErr NewportError

text \<open>
  What a call does: it returns a value, it raises, or it never returns because the
  calling thread blocks for ever acquiring a lock it already holds
  (\<open>threading.Lock\<close> is not reentrant).
\<close>

datatype 'a outcome = Return 'a | Raise py_exn | Deadlock

section \<open>NewportError\<close>

text \<open>
  \<open>NewportError.__init__\<close>. The attribute \<open>code\<close> is assigned in both branches of
  the test on the length and then once more, unconditionally, from the whole first
  field; the last assignment is the one that stays. \<open>split_string[1]\<close> and
  \<open>split_string[2]\<close> raise \<open>IndexError\<close> when the field does not exist; a slice
  \<open>[1:]\<close> never raises.
\<close>

definition NewportError_init :: "string \<Rightarrow> py_exn + NewportError" where
  "NewportError_init string =
     (let split_string = split (CHR '','') string;
          code = hd split_string;
          self_axis = (if length code = 3 then Some (take 1 code) else None);
          self_code = (if length code = 3 then drop 1 code else code);
          self_code = hd split_string
      in if length split_string < 2 then Inl IndexError
         else let self_timestamp = drop 1 (split_string ! 1)
         in if length split_string < 3 then Inl IndexError
         else let self_message = drop 1 (split_string ! 2)
         in Inr \<lparr>err_string = string, err_axis = self_axis, err_code = self_code,
                 err_timestamp = self_timestamp, err_message = self_message\<rparr>)"

text \<open>\<open>raise NewportError(err)\<close>: a failing constructor raises its own exception instead.\<close>

definition raise_NewportError :: "string \<Rightarrow> py_exn" where
  "raise_NewportError err =
     (case NewportError_init err of Inl e \<Rightarrow> e | Inr ne \<Rightarrow> NewportErr ne)"

section \<open>The controller: class ESP\<close>

text \<open>
  The state of one \<open>ESP\<close> object and of what it talks to:
  \<^item> \<open>lock\<close>: \<open>self.lock\<close>, true while the lock is held;
  \<^item> \<open>written\<close>: the strings given to \<open>self.ser.write\<close>, oldest first;
  \<^item> \<open>incoming\<close>: what the next calls of \<open>self.ser.readline()\<close> return, in order.
    The port is opened with a timeout of one second, and \<open>readline\<close> returns the
    empty string when it times out with nothing received: that is also what it
    returns here once \<open>incoming\<close> is exhausted;
  \<^item> \<open>printed\<close>: the lines given to \<open>print\<close>, oldest first.
  Exceptions of the serial library itself are not modelled.
\<close>

record esp =
  lock :: bool
  written :: "string list"
  incoming :: "string list"
  printed :: "string list"

definition ser_write :: "string \<Rightarrow> esp \<Rightarrow> esp" where
  "ser_write data s = s\<lparr>written := written s @ [data]\<rparr>"

definition ser_readline :: "esp \<Rightarrow> string \<times> esp" where
  "ser_readline s =
     (case incoming s of
        [] \<Rightarrow> ([], s)
      | l # ls \<Rightarrow> (l, s\<lparr>incoming := ls\<rparr>))"

text \<open>Sequencing: the next step runs only after a normal return.\<close>

definition bind_outcome ::
  "'a outcome \<times> esp \<Rightarrow> ('a \<Rightarrow> esp \<Rightarrow> 'b outcome \<times> esp) \<Rightarrow> 'b outcome \<times> esp" where
  "bind_outcome m f =
     (case m of
        (Return x, s) \<Rightarrow> f x s
      | (Raise e, s) \<Rightarrow> (Raise e, s)
      | (Deadlock, s) \<Rightarrow> (Deadlock, s))"

text \<open>
  \<open>with self.lock:\<close> acquires the lock, blocking while it is held, and releases it
  when the block is left, by a return or by an exception. Within one thread a lock
  that is held stays held, so acquiring it again never returns.
\<close>

definition with_lock :: "(esp \<Rightarrow> 'a outcome \<times> esp) \<Rightarrow> esp \<Rightarrow> 'a outcome \<times> esp" where
  "with_lock body s =
     (if lock s then (Deadlock, s)
      else (case body (s\<lparr>lock := True\<rparr>) of
              (Deadlock, s') \<Rightarrow> (Deadlock, s')
            | (r, s') \<Rightarrow> (r, s'\<lparr>lock := False\<rparr>)))"

text \<open>
  The argument \<open>axis\<close> of \<open>ESP.write\<close> and \<open>ESP.query\<close>: \<open>None\<close>, an axis index,
  or a string (\<open>Axis.write\<close> documents the empty string, to address the controller).
\<close>

datatype axis_val = Index int | Text string

fun str_axis :: "axis_val \<Rightarrow> string" where
  "str_axis (Index i) = str_int i"
| "str_axis (Text t) = t"

text \<open>\<open>ESP.read\<close>: one \<open>readline\<close>, then the slice \<open>str[0:-2]\<close>.\<close>

definition ESP_read :: "esp \<Rightarrow> string outcome \<times> esp" where
  "ESP_read s = (case ser_readline s of (str, s') \<Rightarrow> (Return (take (length str - 2) str), s'))"

definition ESP_write :: "string \<Rightarrow> axis_val option \<Rightarrow> esp \<Rightarrow> unit outcome \<times> esp" where
  "ESP_write string ax s =
     (Return (), ser_write ((case ax of Some a \<Rightarrow> str_axis a | None \<Rightarrow> []) @ string @ [CR]) s)"

text \<open>
  \<open>ESP.query\<close>, \<open>ESP.read_error\<close> and \<open>ESP.raise_error\<close> call each other:
  \<open>query\<close> with \<open>check_error\<close> calls \<open>raise_error\<close>, which calls \<open>read_error\<close>,
  which calls \<open>query('TB')\<close> without \<open>check_error\<close>.
\<close>

function ESP_query :: "string \<Rightarrow> axis_val option \<Rightarrow> bool \<Rightarrow> esp \<Rightarrow> string outcome \<times> esp"
  and ESP_read_error :: "esp \<Rightarrow> string outcome \<times> esp"
  and ESP_raise_error :: "esp \<Rightarrow> unit outcome \<times> esp"
where
  "ESP_query string ax check_error s =
     with_lock (\<lambda>s1.
       bind_outcome (if check_error then ESP_raise_error s1 else (Return (), s1)) (\<lambda>_ s2.
       bind_outcome (ESP_write (string @ ''?'') ax s2) (\<lambda>_ s3.
       bind_outcome (if check_error then ESP_raise_error s3 else (Return (), s3)) (\<lambda>_ s4.
       ESP_read s4)))) s"
| "ESP_read_error s = ESP_query ''TB'' None False s"
| "ESP_raise_error s =
     bind_outcome (ESP_read_error s) (\<lambda>err s1.
       (case err of
          [] \<Rightarrow> (Raise IndexError, s1)
        | c # _ \<Rightarrow> if c \<noteq> CHR ''0'' then (Raise (raise_NewportError err), s1)
                   else (Return (), s1)))"
  by pat_completeness auto
termination
  by (relation "measure (\<lambda>x. case x of
        Inl (_, _, check_error, _) \<Rightarrow> if check_error then 3 else 0
      | Inr (Inl _) \<Rightarrow> 1
      | Inr (Inr _) \<Rightarrow> 2)") auto

declare ESP_query.simps [simp del] ESP_read_error.simps [simp del] ESP_raise_error.simps [simp del]

text \<open>\<open>ESP.abort\<close>: the abort command goes to the controller, with no axis prefix.\<close>

definition ESP_abort :: "esp \<Rightarrow> unit outcome \<times> esp" where
  "ESP_abort s = ESP_write ''AB'' None s"

section \<open>One axis: class Axis\<close>

text \<open>
  An \<open>Axis\<close> object holds its index and a reference to the controller, whose state is
  the \<^typ>\<open>esp\<close> passed to every method. The step sizes and the polling time are
  used by none of the methods modelled here.
\<close>

record Axis =
  axis :: int

definition Axis_write :: "Axis \<Rightarrow> string \<Rightarrow> axis_val option \<Rightarrow> esp \<Rightarrow> unit outcome \<times> esp" where
  "Axis_write self string ax s =
     (let ax = (case ax of None \<Rightarrow> Index (axis self) | Some a \<Rightarrow> a)
      in ESP_write string (Some ax) s)"

definition Axis_query :: "Axis \<Rightarrow> string \<Rightarrow> bool \<Rightarrow> esp \<Rightarrow> string outcome \<times> esp" where
  "Axis_query self string check_error s =
     ESP_query string (Some (Index (axis self))) check_error s"

text \<open>The property \<open>moving\<close>: a fresh motion-done query at every read.\<close>

definition Axis_moving :: "Axis \<Rightarrow> esp \<Rightarrow> bool outcome \<times> esp" where
  "Axis_moving self s =
     bind_outcome (Axis_query self ''MD'' False s) (\<lambda>reply s1.
       (Return (if reply = ''1'' then False else True), s1))"

definition print_line :: "string \<Rightarrow> esp \<Rightarrow> unit outcome \<times> esp" where
  "print_line msg s = (Return (), s\<lparr>printed := printed s @ [msg]\<rparr>)"

text \<open>
  The decorator \<open>check_previous_motion_is_done\<close>: the wrapped method runs only when
  \<open>self.moving\<close> is false, and what it returns is dropped.
\<close>

definition check_previous_motion_is_done ::
  "(Axis \<Rightarrow> esp \<Rightarrow> 'a outcome \<times> esp) \<Rightarrow> Axis \<Rightarrow> esp \<Rightarrow> unit outcome \<times> esp" where
  "check_previous_motion_is_done func self s =
     bind_outcome (Axis_moving self s) (\<lambda>moving s1.
       if moving then (Raise (RuntimeError ''Previous motion is not done! Aborting.''), s1)
       else bind_outcome (func self s1) (\<lambda>_ s2. (Return (), s2)))"

text \<open>
  The decorator \<open>catch_error\<close>, written for the methods of an axis (the two places
  that apply it, on \<open>move_to\<close> and \<open>move_by\<close>, are commented out): after the
  wrapped method it writes \<open>TB?\<close> to the controller, reads the last error through
  \<open>read_error\<close>, which writes \<open>TB?\<close> again and reads one reply, and when the
  first character of the reply is not \<open>0\<close> it calls \<open>abort\<close> and then raises.
  The test \<open>error_string[0] is not '0'\<close> compares two one-character strings by
  identity; CPython keeps one object for each one-character string, so it is the
  inequality of the characters. On an empty reply \<open>error_string[0]\<close> raises
  \<open>IndexError\<close>.
\<close>

definition catch_error ::
  "(Axis \<Rightarrow> esp \<Rightarrow> 'a outcome \<times> esp) \<Rightarrow> Axis \<Rightarrow> esp \<Rightarrow> unit outcome \<times> esp" where
  "catch_error func self s =
     bind_outcome (func self s) (\<lambda>_ s1.
     bind_outcome (Axis_write self ''TB?'' (Some (Text [])) s1) (\<lambda>_ s2.
     bind_outcome (ESP_read_error s2) (\<lambda>error_string s3.
       (case error_string of
          [] \<Rightarrow> (Raise IndexError, s3)
        | c # _ \<Rightarrow>
            if c \<noteq> CHR ''0'' then
              bind_outcome (ESP_abort s3) (\<lambda>_ s4.
                (Raise (raise_NewportError error_string), s4))
            else (Return (), s3)))))"

text \<open>The bodies of \<open>move_up\<close>, \<open>move_down\<close> and \<open>move_\<close>, before decoration (a name cannot end in an underscore here, so \<open>move_\<close> is \<open>move_direction\<close>).\<close>

definition move_up_func :: "Axis \<Rightarrow> esp \<Rightarrow> unit outcome \<times> esp" where
  "move_up_func self s =
     bind_outcome (Axis_moving self s) (\<lambda>moving s1.
       if \<not> moving then Axis_write self ''MV-'' None s1
       else print_line ''Previous motion is not done!'' s1)"

definition move_down_func :: "Axis \<Rightarrow> esp \<Rightarrow> unit outcome \<times> esp" where
  "move_down_func self s =
     bind_outcome (Axis_moving self s) (\<lambda>moving s1.
       if \<not> moving then Axis_write self ''MV+'' None s1
       else print_line ''Previous motion is not done!'' s1)"

definition move_direction_func :: "Axis \<Rightarrow> 'd \<Rightarrow> esp \<Rightarrow> unit outcome \<times> esp" where
  "move_direction_func self direction s =
     bind_outcome (Axis_moving self s) (\<lambda>moving s1.
       if \<not> moving then Axis_write self ''MV+'' None s1
       else print_line ''Previous motion is not done!'' s1)"

text \<open>The methods as the class exposes them, decorated.\<close>

definition Axis_move_up :: "Axis \<Rightarrow> esp \<Rightarrow> unit outcome \<times> esp" where
  "Axis_move_up self s = check_previous_motion_is_done move_up_func self s"

definition Axis_move_down :: "Axis \<Rightarrow> esp \<Rightarrow> unit outcome \<times> esp" where
  "Axis_move_down self s = check_previous_motion_is_done move_down_func self s"

definition Axis_move_direction :: "Axis \<Rightarrow> 'd \<Rightarrow> esp \<Rightarrow> unit outcome \<times> esp" where
  "Axis_move_direction self direction s =
     check_previous_motion_is_done (\<lambda>self. move_direction_func self direction) self s"

text \<open>
  Python's built-in \<open>int\<close>, \<open>float\<close> and \<open>str\<close> are parameters of the methods that
  call them on replies and arguments: a parser takes the reply and gives a value or
  the exception it raises.
\<close>

definition py_call :: "('a \<Rightarrow> py_exn + 'b) \<Rightarrow> 'a \<Rightarrow> esp \<Rightarrow> 'b outcome \<times> esp" where
  "py_call f x s = (case f x of Inl e \<Rightarrow> (Raise e, s) | Inr v \<Rightarrow> (Return v, s))"

text \<open>The dictionary \<open>UNIT\<close>, and the property \<open>unit\<close>; a missing key raises \<open>KeyError\<close>.\<close>

definition UNIT :: "int \<rightharpoonup> string" where
  "UNIT = map_of
     [(0, ''encoder count''), (1, ''motor step''), (2, ''millimiter''), (3, ''micrometer''),
      (4, ''inches''), (5, ''milli-inches''), (6, ''micro-inches''), (7, ''degree''),
      (8, ''gradient''), (9, ''radian''), (10, ''milliradian''), (11, ''microradian'')]"

definition Axis_unit :: "(string \<Rightarrow> py_exn + int) \<Rightarrow> Axis \<Rightarrow> esp \<Rightarrow> string outcome \<times> esp" where
  "Axis_unit int_py self s =
     bind_outcome (Axis_query self ''SN'' False s) (\<lambda>reply s1.
     bind_outcome (py_call int_py reply s1) (\<lambda>k s2.
       (case UNIT k of
          None \<Rightarrow> (Raise KeyError, s2)
        | Some name \<Rightarrow> (Return name, s2))))"

text \<open>
  \<open>travel_limits\<close>: the dictionary it returns is a map from the two keys; a call that
  sets a limit returns \<open>None\<close>.
\<close>

definition Axis_travel_limits ::
  "(string \<Rightarrow> py_exn + 'f) \<Rightarrow> ('v \<Rightarrow> string) \<Rightarrow> Axis \<Rightarrow> 'v option \<Rightarrow> 'v option \<Rightarrow> esp
     \<Rightarrow> (string \<rightharpoonup> 'f) option outcome \<times> esp" where
  "Axis_travel_limits float_py str_py self left right s =
     (if left = None \<and> right = None then
        bind_outcome (Axis_query self ''SL'' False s) (\<lambda>reply1 s1.
        bind_outcome (py_call float_py reply1 s1) (\<lambda>left_lim s2.
        bind_outcome (Axis_query self ''SR'' False s2) (\<lambda>reply2 s3.
        bind_outcome (py_call float_py reply2 s3) (\<lambda>right_lim s4.
          (Return (Some [''left'' \<mapsto> left_lim, ''right'' \<mapsto> right_lim]), s4)))))
      else
        bind_outcome
          (case left of
             Some l \<Rightarrow> Axis_write self (''SL'' @ str_py l) None s
           | None \<Rightarrow> (Return (), s)) (\<lambda>_ s1.
        bind_outcome
          (case right of
             Some r \<Rightarrow> Axis_write self (''SR'' @ str_py r) None s1
           | None \<Rightarrow> (Return (), s1)) (\<lambda>_ s2.
          (Return None, s2))))"

text \<open>
  A parser for plain decimal numerals (an optional minus sign, then one or more
  digits), on which every version of Python's \<open>int\<close> agrees with it and \<open>float\<close>
  gives the same number; it stands for the built-ins in the examples.
\<close>

definition digit_val :: "char \<Rightarrow> nat option" where
  "digit_val c = map_of (zip ''0123456789'' [0, 1, 2, 3, 4, 5, 6, 7, 8, 9]) c"

fun nat_of_digits :: "nat \<Rightarrow> string \<Rightarrow> nat option" where
  "nat_of_digits acc [] = Some acc"
| "nat_of_digits acc (c # cs) =
     (case digit_val c of
        None \<Rightarrow> None
      | Some d \<Rightarrow> nat_of_digits (10 * acc + d) cs)"

definition int_decimal :: "string \<Rightarrow> py_exn + int" where
  "int_decimal str =
     (let (neg, ds) = (case str of c # cs \<Rightarrow> if c = CHR ''-'' then (True, cs) else (False, str)
                       | [] \<Rightarrow> (False, []))
      in if ds = [] then Inl ValueError
         else (case nat_of_digits 0 ds of
                 None \<Rightarrow> Inl ValueError
               | Some n \<Rightarrow> Inr (if neg then - int n else int n)))"

definition float_decimal :: "string \<Rightarrow> py_exn + real" where
  "float_decimal str = map_sum id real_of_int (int_decimal str)"

section \<open>Properties of the primitives\<close>

lemma split_not_Nil: "split sep s \<noteq> []"
  by (induction s) (auto split: list.splits)

lemma split_no_sep: "sep \<notin> set a \<Longrightarrow> split sep a = [a]"
  by (induction a) auto

lemma split_append_sep: "sep \<notin> set a \<Longrightarrow> split sep (a @ sep # b) = a # split sep b"
  by (induction a) auto

lemma length_split: "length (split sep s) = Suc (length (filter (\<lambda>c. c = sep) s))"
  by (induction s) (auto split: list.splits simp: split_not_Nil)

lemma split_three_fields:
  assumes "sep \<notin> set c" "sep \<notin> set t" "sep \<notin> set m" "rest = [] \<or> hd rest = sep"
  shows "\<exists>more. split sep (c @ sep # t @ sep # m @ rest) = c # t # m # more"
proof (cases rest)
  case Nil
  with assms show ?thesis by (simp add: split_append_sep split_no_sep)
next
  case (Cons r rs)
  with assms have "rest = sep # rs" by auto
  with assms show ?thesis by (simp add: split_append_sep)
qed

text \<open>A query never returns when the lock is already held.\<close>

lemma ESP_query_locked: "lock s \<Longrightarrow> ESP_query string ax check_error s = (Deadlock, s)"
  by (simp add: ESP_query.simps with_lock_def)

text \<open>
  With the lock free and no error check, a query is one write of the frame followed by
  one read; the lock is free again afterwards.
\<close>

lemma ESP_query_plain:
  "\<not> lock s \<Longrightarrow> ESP_query string ax False s
     = ESP_read (ser_write ((case ax of Some a \<Rightarrow> str_axis a | None \<Rightarrow> []) @ string @ ''?'' @ [CR]) s)"
  by (simp add: ESP_query.simps with_lock_def bind_outcome_def ESP_write_def ESP_read_def
      ser_write_def ser_readline_def split: list.splits)

section \<open>The error decoder\<close>

text \<open>
  C1, as the code has it. Let the reply be \<open>c,t,m\<close> followed by nothing or by further
  comma-separated fields, where \<open>c\<close>, \<open>t\<close> and \<open>m\<close> contain no comma and \<open>c\<close> has one
  to three characters. Then the construction succeeds; the axis attribute is the first
  character of \<open>c\<close> when \<open>c\<close> has three characters and is absent otherwise; when \<open>c\<close>
  does not have three characters the code attribute is the whole of \<open>c\<close>; the
  timestamp and the message are \<open>t\<close> and \<open>m\<close> without their first character.
\<close>

theorem NewportError_fields:
  assumes "CHR '','' \<notin> set c" and "CHR '','' \<notin> set t" and "CHR '','' \<notin> set m"
    and "rest = [] \<or> hd rest = CHR '',''"
    and "1 \<le> length c" and "length c \<le> 3"
  shows "\<exists>e. NewportError_init (c @ '','' @ t @ '','' @ m @ rest) = Inr e
           \<and> err_axis e = (if length c = 3 then Some [hd c] else None)
           \<and> (length c \<noteq> 3 \<longrightarrow> err_code e = c)
           \<and> err_timestamp e = drop 1 t
           \<and> err_message e = drop 1 m"
proof -
  obtain more where
    "split (CHR '','') (c @ CHR '','' # t @ CHR '','' # m @ rest) = c # t # m # more"
    using split_three_fields [OF assms(1-4)] by blast
  moreover have "take 1 c = [hd c]"
    using assms(5) by (cases c) auto
  ultimately show ?thesis
    by (simp add: NewportError_init_def)
qed

text \<open>
  The reply \<open>125,451322,AXIS TIMEOUT\<close> decodes to axis \<open>1\<close>, timestamp \<open>51322\<close> and
  message \<open>XIS TIMEOUT\<close>: the message loses its first character as the timestamp does.
\<close>

theorem NewportError_fields_witness:
  "\<exists>e. NewportError_init ''125,451322,AXIS TIMEOUT'' = Inr e
        \<and> err_axis e = Some ''1'' \<and> err_timestamp e = ''51322'' \<and> err_message e = ''XIS TIMEOUT''"
  using NewportError_fields [of "''125''" "''451322''" "''AXIS TIMEOUT''" "[]"] by simp

text \<open>
  C1 as stated fails on its own example: the code attribute is \<open>125\<close>, the whole first
  field, and the message is \<open>XIS TIMEOUT\<close>.
\<close>

theorem NewportError_example_counterexample:
  "NewportError_init ''125,451322,AXIS TIMEOUT''
     = Inr \<lparr>err_string = ''125,451322,AXIS TIMEOUT'', err_axis = Some ''1'', err_code = ''125'',
            err_timestamp = ''51322'', err_message = ''XIS TIMEOUT''\<rparr>
   \<and> NewportError_init ''125,451322,AXIS TIMEOUT''
     \<noteq> Inr \<lparr>err_string = ''125,451322,AXIS TIMEOUT'', err_axis = Some ''1'', err_code = ''25'',
            err_timestamp = ''51322'', err_message = ''AXIS TIMEOUT''\<rparr>"
  by (simp add: NewportError_init_def)

text \<open>
  C6, as the code has it. A string with fewer than three comma-separated fields, that
  is with fewer than two commas, makes the construction fail with Python's built-in
  \<open>IndexError\<close>, raised by the index into the list of fields.
\<close>

theorem NewportError_too_few_fields:
  "length (filter (\<lambda>x. x = CHR '','') string) < 2 \<Longrightarrow> NewportError_init string = Inl IndexError"
  by (auto simp: NewportError_init_def Let_def length_split)

theorem NewportError_too_few_fields_witness:
  "length (filter (\<lambda>x. x = CHR '','') ''0, 451322'') < 2
   \<and> NewportError_init ''0, 451322'' = Inl IndexError"
  using NewportError_too_few_fields [of "''0, 451322''"] by simp

section \<open>Queries and the error check\<close>

text \<open>
  C2, at every input. A query with \<open>check_error\<close> never returns: it takes the lock and
  calls \<open>raise_error\<close>, whose own query blocks on the lock the caller holds. Nothing
  is written and nothing is read.
\<close>

theorem query_check_error_deadlocks:
  "ESP_query string ax True s = (Deadlock, s\<lparr>lock := True\<rparr>)"
  by (simp add: ESP_query.simps [of _ _ True] with_lock_def bind_outcome_def ESP_raise_error.simps
      ESP_read_error.simps ESP_query_locked)

text \<open>Reading does not depend on what was written, and changes only the lines to come.\<close>

lemma ESP_read_ser_write:
  "ESP_read s = (r, s1) \<Longrightarrow> ESP_read (ser_write frame s) = (r, s1\<lparr>written := written s @ [frame]\<rparr>)"
  by (auto simp: ESP_read_def ser_write_def ser_readline_def split: list.splits)

lemma ESP_read_keeps:
  "ESP_read s = (r, s1) \<Longrightarrow> lock s1 = lock s \<and> written s1 = written s \<and> printed s1 = printed s"
  by (auto simp: ESP_read_def ser_readline_def split: list.splits)

lemma ESP_query_plain_read:
  "\<not> lock s \<Longrightarrow> ESP_read s = (r, s1) \<Longrightarrow>
   ESP_query string ax False s
     = (r, s1\<lparr>written := written s
          @ [(case ax of Some a \<Rightarrow> str_axis a | None \<Rightarrow> []) @ string @ ''?'' @ [CR]]\<rparr>)"
  by (simp add: ESP_query_plain ESP_read_ser_write)

text \<open>
  C6 as stated fails: the decoder fails with \<open>IndexError\<close>, which is not dedicated to
  malformed error replies; \<open>raise_error\<close> raises the same exception, without calling
  the decoder, when the read times out.
\<close>

theorem NewportError_short_counterexample:
  "NewportError_init ''0'' = Inl IndexError
   \<and> fst (ESP_raise_error \<lparr>lock = False, written = [], incoming = [], printed = []\<rparr>)
       = Raise IndexError"
  by (simp add: NewportError_init_def ESP_raise_error.simps ESP_read_error.simps ESP_query_plain
      ESP_read_def ser_write_def ser_readline_def bind_outcome_def)

text \<open>
  C3, as the code has it. When the lock is free and \<open>readline\<close> times out, returning
  the empty string, a query without \<open>check_error\<close> returns the empty string to its
  caller; no exception is raised.
\<close>

theorem query_timeout_returns_empty:
  "\<not> lock s \<Longrightarrow> fst (ser_readline s) = [] \<Longrightarrow> fst (ESP_query string ax False s) = Return []"
  by (auto simp: ESP_query_plain ESP_read_def ser_write_def ser_readline_def split: list.splits)

theorem query_timeout_returns_empty_witness:
  "\<not> lock \<lparr>lock = False, written = [], incoming = [], printed = []\<rparr>
   \<and> fst (ser_readline \<lparr>lock = False, written = [], incoming = [], printed = []\<rparr>) = []
   \<and> fst (ESP_query ''VE'' None False \<lparr>lock = False, written = [], incoming = [], printed = []\<rparr>)
       = Return []"
  using query_timeout_returns_empty
    [of "\<lparr>lock = False, written = [], incoming = [], printed = []\<rparr>" "''VE''" None]
  by (simp add: ser_readline_def)

text \<open>
  C3 as stated fails: the position query of axis 1, with no reply from the controller,
  returns the empty string.
\<close>

theorem query_timeout_counterexample:
  "ESP_query ''TP'' (Some (Index 1)) False
       \<lparr>lock = False, written = [], incoming = [], printed = []\<rparr>
     = (Return [], \<lparr>lock = False, written = [''1TP?'' @ [CR]], incoming = [], printed = []\<rparr>)"
  by (simp add: ESP_query_plain ESP_read_def ser_write_def ser_readline_def str_int_def
      str_nat.simps digit_char_def)

text \<open>
  C7, as the code has it. With the lock free and a last-error reply that is not empty,
  \<open>raise_error\<close> returns normally exactly when the first character of the reply is
  \<open>0\<close>; when it is not and the decoder accepts the reply, the decoded
  \<open>NewportError\<close> is raised.
\<close>

theorem raise_error_first_character:
  assumes "\<not> lock s" and "ESP_read s = (Return err, s1)" and "err \<noteq> []"
  shows "(fst (ESP_raise_error s) = Return () \<longleftrightarrow> hd err = CHR ''0'')
       \<and> (hd err \<noteq> CHR ''0'' \<longrightarrow> NewportError_init err = Inr e
            \<longrightarrow> fst (ESP_raise_error s) = Raise (NewportErr e))"
  using assms
  by (cases err)
     (simp_all add: ESP_raise_error.simps ESP_read_error.simps ESP_query_plain_read [OF assms(1,2)]
       bind_outcome_def raise_NewportError_def)

theorem raise_error_first_character_witness:
  "fst (ESP_raise_error \<lparr>lock = False, written = [],
          incoming = [''0, 451322, NO ERROR DETECTED'' @ [CR, LF]], printed = []\<rparr>) = Return ()
   \<and> fst (ESP_raise_error \<lparr>lock = False, written = [],
          incoming = [''7, 451322, PARAMETER OUT OF RANGE'' @ [CR, LF]], printed = []\<rparr>)
       = Raise (NewportErr \<lparr>err_string = ''7, 451322, PARAMETER OUT OF RANGE'', err_axis = None,
            err_code = ''7'', err_timestamp = ''451322'', err_message = ''PARAMETER OUT OF RANGE''\<rparr>)"
  using raise_error_first_character
    [of "\<lparr>lock = False, written = [],
          incoming = [''0, 451322, NO ERROR DETECTED'' @ [CR, LF]], printed = []\<rparr>"
        "''0, 451322, NO ERROR DETECTED''"
        "\<lparr>lock = False, written = [], incoming = [], printed = []\<rparr>"]
    raise_error_first_character
    [of "\<lparr>lock = False, written = [],
          incoming = [''7, 451322, PARAMETER OUT OF RANGE'' @ [CR, LF]], printed = []\<rparr>"
        "''7, 451322, PARAMETER OUT OF RANGE''"
        "\<lparr>lock = False, written = [], incoming = [], printed = []\<rparr>"
        "\<lparr>err_string = ''7, 451322, PARAMETER OUT OF RANGE'', err_axis = None, err_code = ''7'',
            err_timestamp = ''451322'', err_message = ''PARAMETER OUT OF RANGE''\<rparr>"]
  by (simp add: ESP_read_def ser_readline_def NewportError_init_def)

text \<open>
  C7 as stated fails: on the reply \<open>07, 1, X\<close> the decoded code is \<open>07\<close>, which
  differs from \<open>0\<close>, and \<open>raise_error\<close> returns normally.
\<close>

theorem raise_error_code_counterexample:
  "ESP_raise_error \<lparr>lock = False, written = [], incoming = [''07, 1, X'' @ [CR, LF]], printed = []\<rparr>
     = (Return (), \<lparr>lock = False, written = [''TB?'' @ [CR]], incoming = [], printed = []\<rparr>)
   \<and> NewportError_init ''07, 1, X''
     = Inr \<lparr>err_string = ''07, 1, X'', err_axis = None, err_code = ''07'',
            err_timestamp = ''1'', err_message = ''X''\<rparr>
   \<and> err_code \<lparr>err_string = ''07, 1, X'', err_axis = None, err_code = ''07'',
            err_timestamp = ''1'', err_message = ''X''\<rparr> \<noteq> ''0''"
  by (simp add: ESP_raise_error.simps ESP_read_error.simps ESP_query_plain
      ESP_read_def ser_write_def ser_readline_def bind_outcome_def NewportError_init_def)

section \<open>The axis\<close>

lemma Axis_query_plain_read:
  "\<not> lock s \<Longrightarrow> ESP_read s = (r, s1) \<Longrightarrow>
   Axis_query self string False s
     = (r, s1\<lparr>written := written s @ [str_int (axis self) @ string @ ''?'' @ [CR]]\<rparr>)"
  by (simp add: Axis_query_def ESP_query_plain_read)

lemma Axis_moving_read:
  "\<not> lock s \<Longrightarrow> ESP_read s = (Return r, s1) \<Longrightarrow>
   Axis_moving self s
     = (Return (r \<noteq> ''1''), s1\<lparr>written := written s @ [str_int (axis self) @ ''MD?'' @ [CR]]\<rparr>)"
  by (simp add: Axis_moving_def Axis_query_plain_read bind_outcome_def)

lemma Axis_write_frame:
  "Axis_write self string None s
     = (Return (), s\<lparr>written := written s @ [str_int (axis self) @ string @ [CR]]\<rparr>)"
  by (simp add: Axis_write_def ESP_write_def ser_write_def)

lemma ESP_read_written_update:
  "ESP_read s = (r, s1) \<Longrightarrow> ESP_read (s\<lparr>written := w\<rparr>) = (r, s1\<lparr>written := w\<rparr>)"
  by (auto simp: ESP_read_def ser_readline_def split: list.splits)

lemma str_int_1: "str_int 1 = ''1''"
  by (simp add: str_int_def str_nat.simps digit_char_def)

text \<open>
  A decorated jog method samples \<open>moving\<close> twice, once in the decorator and once in
  its own body. \<open>r1\<close> and \<open>r2\<close> are the two replies, \<open>jog\<close> is the command of the body.
\<close>

lemma guarded_jog:
  assumes "\<not> lock s" and "ESP_read s = (Return r1, s1)" and "ESP_read s1 = (Return r2, s2)"
    and body: "\<And>t. func self t =
       bind_outcome (Axis_moving self t) (\<lambda>moving t1.
         if \<not> moving then Axis_write self jog None t1
         else print_line ''Previous motion is not done!'' t1)"
  shows "check_previous_motion_is_done func self s =
    (if r1 \<noteq> ''1'' then
       (Raise (RuntimeError ''Previous motion is not done! Aborting.''),
        s1\<lparr>written := written s @ [str_int (axis self) @ ''MD?'' @ [CR]]\<rparr>)
     else if r2 = ''1'' then
       (Return (), s2\<lparr>written := written s @ [str_int (axis self) @ ''MD?'' @ [CR],
           str_int (axis self) @ ''MD?'' @ [CR], str_int (axis self) @ jog @ [CR]]\<rparr>)
     else
       (Return (), s2\<lparr>written := written s @ [str_int (axis self) @ ''MD?'' @ [CR],
           str_int (axis self) @ ''MD?'' @ [CR]],
         printed := printed s @ [''Previous motion is not done!'']\<rparr>))"
proof -
  define md where "md = str_int (axis self) @ ''MD?'' @ [CR]"
  have k1: "lock s1 = lock s" "written s1 = written s" "printed s1 = printed s"
    using ESP_read_keeps [OF assms(2)] by simp_all
  have k2: "lock s2 = lock s" "written s2 = written s" "printed s2 = printed s"
    using ESP_read_keeps [OF assms(3)] k1 by simp_all
  have m1: "Axis_moving self s = (Return (r1 \<noteq> ''1''), s1\<lparr>written := written s @ [md]\<rparr>)"
    unfolding md_def using assms(1,2) by (rule Axis_moving_read)
  have r2: "ESP_read (s1\<lparr>written := written s @ [md]\<rparr>)
      = (Return r2, s2\<lparr>written := written s @ [md]\<rparr>)"
    using assms(3) by (rule ESP_read_written_update)
  have "\<not> lock (s1\<lparr>written := written s @ [md]\<rparr>)"
    using assms(1) k1 by simp
  then have m2: "Axis_moving self (s1\<lparr>written := written s @ [md]\<rparr>)
      = (Return (r2 \<noteq> ''1''), s2\<lparr>written := written s @ [md, md]\<rparr>)"
    using Axis_moving_read [OF _ r2, of self] by (simp add: md_def)
  show ?thesis
    unfolding md_def [symmetric]
    by (simp add: check_previous_motion_is_done_def m1 bind_outcome_def body m2
        Axis_write_frame print_line_def k2)
qed

text \<open>
  C4, as the code has it. With the lock free, \<open>move_up\<close> and \<open>move_down\<close> first
  sample \<open>moving\<close> by a motion-done query. If the reply \<open>r1\<close> is not \<open>1\<close>, the call
  raises \<open>RuntimeError\<close> and has written that one query only. If it is \<open>1\<close>, the
  method samples \<open>moving\<close> a second time: if the second reply \<open>r2\<close> is \<open>1\<close> too,
  exactly one jog command follows the two queries (\<open>MV-\<close> for \<open>move_up\<close>, \<open>MV+\<close>
  for \<open>move_down\<close>); otherwise no jog command is written, a line is printed and the
  call returns normally.
\<close>

theorem jog_guard:
  assumes "\<not> lock s" and "ESP_read s = (Return r1, s1)" and "ESP_read s1 = (Return r2, s2)"
  shows "(r1 \<noteq> ''1'' \<longrightarrow>
            Axis_move_up self s
              = (Raise (RuntimeError ''Previous motion is not done! Aborting.''),
                 s1\<lparr>written := written s @ [str_int (axis self) @ ''MD?'' @ [CR]]\<rparr>)
          \<and> Axis_move_down self s
              = (Raise (RuntimeError ''Previous motion is not done! Aborting.''),
                 s1\<lparr>written := written s @ [str_int (axis self) @ ''MD?'' @ [CR]]\<rparr>))
       \<and> (r1 = ''1'' \<and> r2 = ''1'' \<longrightarrow>
            Axis_move_up self s
              = (Return (), s2\<lparr>written := written s @ [str_int (axis self) @ ''MD?'' @ [CR],
                   str_int (axis self) @ ''MD?'' @ [CR], str_int (axis self) @ ''MV-'' @ [CR]]\<rparr>)
          \<and> Axis_move_down self s
              = (Return (), s2\<lparr>written := written s @ [str_int (axis self) @ ''MD?'' @ [CR],
                   str_int (axis self) @ ''MD?'' @ [CR], str_int (axis self) @ ''MV+'' @ [CR]]\<rparr>))
       \<and> (r1 = ''1'' \<and> r2 \<noteq> ''1'' \<longrightarrow>
            Axis_move_up self s
              = (Return (), s2\<lparr>written := written s @ [str_int (axis self) @ ''MD?'' @ [CR],
                   str_int (axis self) @ ''MD?'' @ [CR]],
                 printed := printed s @ [''Previous motion is not done!'']\<rparr>)
          \<and> Axis_move_down self s
              = (Return (), s2\<lparr>written := written s @ [str_int (axis self) @ ''MD?'' @ [CR],
                   str_int (axis self) @ ''MD?'' @ [CR]],
                 printed := printed s @ [''Previous motion is not done!'']\<rparr>))"
proof -
  have up: "\<And>t. move_up_func self t =
       bind_outcome (Axis_moving self t) (\<lambda>moving t1.
         if \<not> moving then Axis_write self ''MV-'' None t1
         else print_line ''Previous motion is not done!'' t1)"
    by (simp add: move_up_func_def)
  have down: "\<And>t. move_down_func self t =
       bind_outcome (Axis_moving self t) (\<lambda>moving t1.
         if \<not> moving then Axis_write self ''MV+'' None t1
         else print_line ''Previous motion is not done!'' t1)"
    by (simp add: move_down_func_def)
  show ?thesis
    unfolding Axis_move_up_def Axis_move_down_def
      guarded_jog [where func = move_up_func and jog = "''MV-''", OF assms up]
      guarded_jog [where func = move_down_func and jog = "''MV+''", OF assms down]
    by simp
qed

theorem jog_guard_witness:
  "Axis_move_up \<lparr>axis = 1\<rparr>
       \<lparr>lock = False, written = [], incoming = [''0'' @ [CR, LF]], printed = []\<rparr>
     = (Raise (RuntimeError ''Previous motion is not done! Aborting.''),
        \<lparr>lock = False, written = [''1MD?'' @ [CR]], incoming = [], printed = []\<rparr>)
   \<and> Axis_move_up \<lparr>axis = 1\<rparr>
       \<lparr>lock = False, written = [], incoming = [''1'' @ [CR, LF], ''1'' @ [CR, LF]], printed = []\<rparr>
     = (Return (), \<lparr>lock = False,
          written = [''1MD?'' @ [CR], ''1MD?'' @ [CR], ''1MV-'' @ [CR]],
          incoming = [], printed = []\<rparr>)
   \<and> Axis_move_down \<lparr>axis = 1\<rparr>
       \<lparr>lock = False, written = [], incoming = [''1'' @ [CR, LF], ''1'' @ [CR, LF]], printed = []\<rparr>
     = (Return (), \<lparr>lock = False,
          written = [''1MD?'' @ [CR], ''1MD?'' @ [CR], ''1MV+'' @ [CR]],
          incoming = [], printed = []\<rparr>)"
  using jog_guard
    [of "\<lparr>lock = False, written = [], incoming = [''0'' @ [CR, LF]], printed = []\<rparr>"
        "''0''" "\<lparr>lock = False, written = [], incoming = [], printed = []\<rparr>"
        "[]" "\<lparr>lock = False, written = [], incoming = [], printed = []\<rparr>" "\<lparr>axis = 1\<rparr>"]
    jog_guard
    [of "\<lparr>lock = False, written = [], incoming = [''1'' @ [CR, LF], ''1'' @ [CR, LF]], printed = []\<rparr>"
        "''1''" "\<lparr>lock = False, written = [], incoming = [''1'' @ [CR, LF]], printed = []\<rparr>"
        "''1''" "\<lparr>lock = False, written = [], incoming = [], printed = []\<rparr>" "\<lparr>axis = 1\<rparr>"]
  by (simp add: ESP_read_def ser_readline_def str_int_1)

text \<open>
  C4 as stated fails: the first reply is \<open>1\<close> (idle) and the second is \<open>0\<close>; the call
  returns normally and has written the two motion-done queries and no jog command.
\<close>

theorem jog_guard_counterexample:
  "Axis_move_up \<lparr>axis = 1\<rparr>
       \<lparr>lock = False, written = [], incoming = [''1'' @ [CR, LF], ''0'' @ [CR, LF]], printed = []\<rparr>
     = (Return (), \<lparr>lock = False, written = [''1MD?'' @ [CR], ''1MD?'' @ [CR]], incoming = [],
          printed = [''Previous motion is not done!'']\<rparr>)"
  by (simp add: Axis_move_up_def check_previous_motion_is_done_def move_up_func_def
      Axis_moving_def Axis_query_def ESP_query_plain ESP_read_def ser_write_def ser_readline_def
      bind_outcome_def print_line_def str_int_1)

text \<open>
  C10. \<open>move_\<close> does not depend on its argument \<open>direction\<close>: two calls in the same
  state that differ in it only have the same outcome and leave the same state, so the
  same frames on the transport. When the lock is free and both motion-done replies are
  \<open>1\<close> (idle), the command written after the two queries is \<open>MV+\<close>.
\<close>

theorem move_direction_ignored:
  "Axis_move_direction self d1 s = Axis_move_direction self d2 s
   \<and> (\<not> lock s \<longrightarrow> ESP_read s = (Return ''1'', s1) \<longrightarrow> ESP_read s1 = (Return ''1'', s2) \<longrightarrow>
        Axis_move_direction self d1 s
          = (Return (), s2\<lparr>written := written s @ [str_int (axis self) @ ''MD?'' @ [CR],
               str_int (axis self) @ ''MD?'' @ [CR], str_int (axis self) @ ''MV+'' @ [CR]]\<rparr>))"
proof -
  have "move_direction_func self d1 = move_direction_func self d2" for self
    by (rule ext) (simp add: move_direction_func_def)
  then have same: "Axis_move_direction self d1 s = Axis_move_direction self d2 s"
    by (simp add: Axis_move_direction_def)
  have body: "\<And>t. move_direction_func self d1 t =
       bind_outcome (Axis_moving self t) (\<lambda>moving t1.
         if \<not> moving then Axis_write self ''MV+'' None t1
         else print_line ''Previous motion is not done!'' t1)"
    by (simp add: move_direction_func_def)
  have idle: "Axis_move_direction self d1 s
          = (Return (), s2\<lparr>written := written s @ [str_int (axis self) @ ''MD?'' @ [CR],
               str_int (axis self) @ ''MD?'' @ [CR], str_int (axis self) @ ''MV+'' @ [CR]]\<rparr>)"
    if "\<not> lock s" and "ESP_read s = (Return ''1'', s1)" and "ESP_read s1 = (Return ''1'', s2)"
    unfolding Axis_move_direction_def
      guarded_jog [where func = "\<lambda>self. move_direction_func self d1" and jog = "''MV+''",
        OF that body]
    by simp
  from same idle show ?thesis by blast
qed

theorem move_direction_ignored_witness:
  "Axis_move_direction \<lparr>axis = 1\<rparr> True
       \<lparr>lock = False, written = [], incoming = [''1'' @ [CR, LF], ''1'' @ [CR, LF]], printed = []\<rparr>
     = Axis_move_direction \<lparr>axis = 1\<rparr> (- 1 :: int)
       \<lparr>lock = False, written = [], incoming = [''1'' @ [CR, LF], ''1'' @ [CR, LF]], printed = []\<rparr>
   \<and> Axis_move_direction \<lparr>axis = 1\<rparr> True
       \<lparr>lock = False, written = [], incoming = [''1'' @ [CR, LF], ''1'' @ [CR, LF]], printed = []\<rparr>
     = (Return (), \<lparr>lock = False,
          written = [''1MD?'' @ [CR], ''1MD?'' @ [CR], ''1MV+'' @ [CR]],
          incoming = [], printed = []\<rparr>)"
proof -
  note t = move_direction_ignored
    [of "\<lparr>axis = 1\<rparr>" True
        "\<lparr>lock = False, written = [], incoming = [''1'' @ [CR, LF], ''1'' @ [CR, LF]], printed = []\<rparr>"
        "- 1 :: int" "\<lparr>lock = False, written = [], incoming = [''1'' @ [CR, LF]], printed = []\<rparr>"
        "\<lparr>lock = False, written = [], incoming = [], printed = []\<rparr>"]
  show ?thesis
    by (rule conjI, rule t [THEN conjunct1])
       (use t [THEN conjunct2] in \<open>simp add: ESP_read_def ser_readline_def str_int_1\<close>)
qed

text \<open>
  C5. With both arguments absent and the lock free, \<open>travel_limits\<close> writes the query
  \<open>SL?\<close> and then the query \<open>SR?\<close>, and returns the dictionary of the two replies
  as \<open>float\<close> parses them, under the keys \<open>left\<close> and \<open>right\<close>. With an
  argument present it reads nothing, writes the \<open>SL\<close> command if \<open>left\<close> is
  present and then the \<open>SR\<close> command if \<open>right\<close> is present, each with \<open>str\<close> of
  the value, and returns \<open>None\<close>.
\<close>

theorem travel_limits_get_set:
  "(\<not> lock s \<longrightarrow> ESP_read s = (Return r1, s1) \<longrightarrow> ESP_read s1 = (Return r2, s2) \<longrightarrow>
      float_py r1 = Inr a \<longrightarrow> float_py r2 = Inr b \<longrightarrow>
      Axis_travel_limits float_py str_py self None None s
        = (Return (Some [''left'' \<mapsto> a, ''right'' \<mapsto> b]),
           s2\<lparr>written := written s @ [str_int (axis self) @ ''SL?'' @ [CR],
                str_int (axis self) @ ''SR?'' @ [CR]]\<rparr>))
   \<and> (left \<noteq> None \<or> right \<noteq> None \<longrightarrow>
      Axis_travel_limits float_py str_py self left right s
        = (Return None,
           s\<lparr>written := written s
                @ (case left of None \<Rightarrow> [] | Some l \<Rightarrow> [str_int (axis self) @ ''SL'' @ str_py l @ [CR]])
                @ (case right of None \<Rightarrow> [] | Some r \<Rightarrow> [str_int (axis self) @ ''SR'' @ str_py r @ [CR]])\<rparr>))"
proof -
  have get: "Axis_travel_limits float_py str_py self None None s
        = (Return (Some [''left'' \<mapsto> a, ''right'' \<mapsto> b]),
           s2\<lparr>written := written s @ [str_int (axis self) @ ''SL?'' @ [CR],
                str_int (axis self) @ ''SR?'' @ [CR]]\<rparr>)"
    if free: "\<not> lock s" and r1: "ESP_read s = (Return r1, s1)"
      and r2: "ESP_read s1 = (Return r2, s2)"
      and a: "float_py r1 = Inr a" and b: "float_py r2 = Inr b"
  proof -
    define sl where "sl = str_int (axis self) @ ''SL?'' @ [CR]"
    define sr where "sr = str_int (axis self) @ ''SR?'' @ [CR]"
    have k1: "lock s1 = lock s" "written s1 = written s"
      using ESP_read_keeps [OF r1] by simp_all
    have q1: "Axis_query self ''SL'' False s = (Return r1, s1\<lparr>written := written s @ [sl]\<rparr>)"
      using free r1 by (simp add: Axis_query_plain_read sl_def)
    have "ESP_read (s1\<lparr>written := written s @ [sl]\<rparr>)
        = (Return r2, s2\<lparr>written := written s @ [sl]\<rparr>)"
      using r2 by (rule ESP_read_written_update)
    moreover have "\<not> lock (s1\<lparr>written := written s @ [sl]\<rparr>)"
      using free k1 by simp
    ultimately have q2: "Axis_query self ''SR'' False (s1\<lparr>written := written s @ [sl]\<rparr>)
        = (Return r2, s2\<lparr>written := written s @ [sl, sr]\<rparr>)"
      using Axis_query_plain_read [of "s1\<lparr>written := written s @ [sl]\<rparr>" "Return r2" _ self "''SR''"]
      by (simp add: sr_def)
    show ?thesis
      unfolding sl_def [symmetric] sr_def [symmetric]
      by (simp add: Axis_travel_limits_def q1 q2 bind_outcome_def py_call_def a b)
  qed
  have set: "Axis_travel_limits float_py str_py self left right s
        = (Return None,
           s\<lparr>written := written s
                @ (case left of None \<Rightarrow> [] | Some l \<Rightarrow> [str_int (axis self) @ ''SL'' @ str_py l @ [CR]])
                @ (case right of None \<Rightarrow> [] | Some r \<Rightarrow> [str_int (axis self) @ ''SR'' @ str_py r @ [CR]])\<rparr>)"
    if "left \<noteq> None \<or> right \<noteq> None"
    using that
    by (cases left; cases right)
       (simp_all add: Axis_travel_limits_def Axis_write_frame bind_outcome_def)
  from get set show ?thesis by blast
qed

lemma float_decimal_examples:
  "float_decimal ''-5'' = Inr (- 5)" "float_decimal ''10'' = Inr 10"
  by (simp_all add: float_decimal_def int_decimal_def digit_val_def)

lemma str_int_minus_3: "str_int (- 3) = ''-3''"
  by (simp add: str_int_def str_nat.simps digit_char_def)

text \<open>
  The two examples of C5, on axis 1: the replies \<open>-5\<close> and \<open>10\<close> give the limits
  \<open>-5\<close> and \<open>10\<close>, and \<open>travel_limits(left=-3)\<close> writes the frame \<open>1SL-3\<close> only.
\<close>

theorem travel_limits_get_set_witness:
  "Axis_travel_limits float_decimal str_int \<lparr>axis = 1\<rparr> None None
       \<lparr>lock = False, written = [], incoming = [''-5'' @ [CR, LF], ''10'' @ [CR, LF]], printed = []\<rparr>
     = (Return (Some [''left'' \<mapsto> - 5, ''right'' \<mapsto> 10]),
        \<lparr>lock = False, written = [''1SL?'' @ [CR], ''1SR?'' @ [CR]], incoming = [], printed = []\<rparr>)
   \<and> Axis_travel_limits float_decimal str_int \<lparr>axis = 1\<rparr> (Some (- 3)) None
       \<lparr>lock = False, written = [], incoming = [], printed = []\<rparr>
     = (Return None,
        \<lparr>lock = False, written = [''1SL-3'' @ [CR]], incoming = [], printed = []\<rparr>)"
proof -
  note get = travel_limits_get_set
    [where s = "\<lparr>lock = False, written = [],
              incoming = [''-5'' @ [CR, LF], ''10'' @ [CR, LF]], printed = []\<rparr>"
       and ?r1.0 = "''-5''"
       and ?s1.0 = "\<lparr>lock = False, written = [], incoming = [''10'' @ [CR, LF]], printed = []\<rparr>"
       and ?r2.0 = "''10''"
       and ?s2.0 = "\<lparr>lock = False, written = [], incoming = [], printed = []\<rparr>"
       and float_py = float_decimal and a = "- 5" and b = 10 and str_py = str_int
       and self = "\<lparr>axis = 1\<rparr>", THEN conjunct1]
  note set = travel_limits_get_set
    [where left = "Some (- 3)" and right = None and float_py = float_decimal
       and str_py = str_int and self = "\<lparr>axis = 1\<rparr>"
       and s = "\<lparr>lock = False, written = [], incoming = [], printed = []\<rparr>",
     THEN conjunct2]
  show ?thesis
    by (rule conjI)
       (use get in \<open>simp add: ESP_read_def ser_readline_def str_int_1 float_decimal_examples\<close>,
        use set in \<open>simp add: str_int_1 str_int_minus_3\<close>)
qed

text \<open>
  C9, as the code has it. When the lock is free and \<open>int\<close> reads the reply to the
  \<open>SN\<close> query as an integer from 0 to 11, \<open>unit\<close> returns a name; for every code
  but 2 it is the one this table gives.
\<close>

theorem unit_table:
  assumes "\<not> lock s" and "ESP_read s = (Return reply, s1)" and "int_py reply = Inr k"
    and "0 \<le> k" and "k \<le> 11"
  shows "\<exists>name. Axis_unit int_py self s
             = (Return name, s1\<lparr>written := written s @ [str_int (axis self) @ ''SN?'' @ [CR]]\<rparr>)
           \<and> (k \<noteq> 2 \<longrightarrow>
                map_of [(0, ''encoder count''), (1, ''motor step''), (3, ''micrometer''),
                        (4, ''inches''), (5, ''milli-inches''), (6, ''micro-inches''),
                        (7, ''degree''), (8, ''gradient''), (9, ''radian''),
                        (10, ''milliradian''), (11, ''microradian'')] k = Some name)"
proof -
  have "k = 0 \<or> k = 1 \<or> k = 2 \<or> k = 3 \<or> k = 4 \<or> k = 5 \<or> k = 6 \<or> k = 7 \<or> k = 8 \<or> k = 9
      \<or> k = 10 \<or> k = 11"
    using assms(4,5) by arith
  moreover have "Axis_unit int_py self s =
      (case UNIT k of
         None \<Rightarrow> (Raise KeyError, s1\<lparr>written := written s @ [str_int (axis self) @ ''SN?'' @ [CR]]\<rparr>)
       | Some name \<Rightarrow> (Return name, s1\<lparr>written := written s @ [str_int (axis self) @ ''SN?'' @ [CR]]\<rparr>))"
    by (simp add: Axis_unit_def Axis_query_plain_read [OF assms(1,2)] bind_outcome_def
        py_call_def assms(3) split: option.splits)
  ultimately show ?thesis
    by (elim disjE) (simp_all add: UNIT_def)
qed

theorem unit_table_witness:
  "Axis_unit int_decimal \<lparr>axis = 1\<rparr>
       \<lparr>lock = False, written = [], incoming = [''11'' @ [CR, LF]], printed = []\<rparr>
     = (Return ''microradian'',
        \<lparr>lock = False, written = [''1SN?'' @ [CR]], incoming = [], printed = []\<rparr>)"
  using unit_table
    [of "\<lparr>lock = False, written = [], incoming = [''11'' @ [CR, LF]], printed = []\<rparr>"
        "''11''" "\<lparr>lock = False, written = [], incoming = [], printed = []\<rparr>"
        int_decimal 11 "\<lparr>axis = 1\<rparr>"]
  by (simp add: ESP_read_def ser_readline_def str_int_1 int_decimal_def digit_val_def)

text \<open>
  C9 as stated fails: for the reply \<open>4\<close> the name returned is \<open>inches\<close>, not \<open>inch\<close>.
\<close>

theorem unit_table_counterexample:
  "Axis_unit int_decimal \<lparr>axis = 1\<rparr>
       \<lparr>lock = False, written = [], incoming = [''4'' @ [CR, LF]], printed = []\<rparr>
     = (Return ''inches'',
        \<lparr>lock = False, written = [''1SN?'' @ [CR]], incoming = [], printed = []\<rparr>)
   \<and> fst (Axis_unit int_decimal \<lparr>axis = 1\<rparr>
       \<lparr>lock = False, written = [], incoming = [''4'' @ [CR, LF]], printed = []\<rparr>)
     \<noteq> Return ''inch''"
  by (simp add: Axis_unit_def Axis_query_def ESP_query_plain ESP_read_def ser_write_def
      ser_readline_def bind_outcome_def py_call_def int_decimal_def digit_val_def UNIT_def
      str_int_1)

section \<open>The error check and the abort command\<close>

text \<open>
  Called by a query that checks for errors, \<open>raise_error\<close> finds the lock held and
  never reads a reply: on that route no error is ever detected.
\<close>

lemma ESP_raise_error_locked: "lock s \<Longrightarrow> ESP_raise_error s = (Deadlock, s)"
  by (simp add: ESP_raise_error.simps ESP_read_error.simps ESP_query_locked bind_outcome_def)

text \<open>The frames of \<open>abort\<close> and of the controller-directed write of \<open>catch_error\<close>.\<close>

lemma ESP_abort_frame: "ESP_abort s = (Return (), s\<lparr>written := written s @ [''AB'' @ [CR]]\<rparr>)"
  by (simp add: ESP_abort_def ESP_write_def ser_write_def)

lemma Axis_write_controller:
  "Axis_write self string (Some (Text [])) s
     = (Return (), s\<lparr>written := written s @ [string @ [CR]]\<rparr>)"
  by (simp add: Axis_write_def ESP_write_def ser_write_def)

text \<open>
  C8, on the code. Let the lock be free and the last-error reply \<open>err\<close> be not empty
  and not start with \<open>0\<close>, so that an error is detected. Called on its own,
  \<open>raise_error\<close> raises after a single frame, the query \<open>TB?\<close>: no abort command
  is sent before the error reaches the caller. The other error check of the driver,
  \<open>catch_error\<close>, in the same state after a method that returned, sends \<open>AB\<close>
  after its two \<open>TB?\<close> frames and then raises the same error.
\<close>

theorem raise_error_misses_abort:
  assumes "\<not> lock s" and "ESP_read s = (Return err, s1)" and "err \<noteq> []" and "hd err \<noteq> CHR ''0''"
  shows "ESP_raise_error s
           = (Raise (raise_NewportError err), s1\<lparr>written := written s @ [''TB?'' @ [CR]]\<rparr>)
       \<and> (func self s0 = (Return x, s) \<longrightarrow>
            catch_error func self s0
              = (Raise (raise_NewportError err),
                 s1\<lparr>written := written s @ [''TB?'' @ [CR], ''TB?'' @ [CR], ''AB'' @ [CR]]\<rparr>))"
proof -
  obtain c cs where err: "err = c # cs" and c: "c \<noteq> CHR ''0''"
    using assms(3,4) by (cases err) auto
  have direct: "ESP_raise_error s
           = (Raise (raise_NewportError err), s1\<lparr>written := written s @ [''TB?'' @ [CR]]\<rparr>)"
    by (simp add: ESP_raise_error.simps ESP_read_error.simps ESP_query_plain_read [OF assms(1,2)]
        bind_outcome_def err c)
  have wrapped: "catch_error func self s0
              = (Raise (raise_NewportError err),
                 s1\<lparr>written := written s @ [''TB?'' @ [CR], ''TB?'' @ [CR], ''AB'' @ [CR]]\<rparr>)"
    if func: "func self s0 = (Return x, s)"
  proof -
    define tb where "tb = ''TB?'' @ [CR]"
    have k1: "lock s1 = lock s" "written s1 = written s"
      using ESP_read_keeps [OF assms(2)] by simp_all
    have w: "Axis_write self ''TB?'' (Some (Text [])) s
        = (Return (), s\<lparr>written := written s @ [tb]\<rparr>)"
      by (simp add: Axis_write_controller tb_def)
    have "ESP_read (s\<lparr>written := written s @ [tb]\<rparr>)
        = (Return err, s1\<lparr>written := written s @ [tb]\<rparr>)"
      using assms(2) by (rule ESP_read_written_update)
    moreover have "\<not> lock (s\<lparr>written := written s @ [tb]\<rparr>)"
      using assms(1) by simp
    ultimately have q: "ESP_read_error (s\<lparr>written := written s @ [tb]\<rparr>)
        = (Return err, s1\<lparr>written := written s @ [tb, tb]\<rparr>)"
      using ESP_query_plain_read
        [of "s\<lparr>written := written s @ [tb]\<rparr>" "Return err" _ "''TB''" None]
      by (simp add: ESP_read_error.simps tb_def)
    have ab: "ESP_abort (s1\<lparr>written := written s @ [tb, tb]\<rparr>)
        = (Return (), s1\<lparr>written := written s @ [tb, tb, ''AB'' @ [CR]]\<rparr>)"
      by (simp add: ESP_abort_frame)
    show ?thesis
      unfolding tb_def [symmetric]
      by (simp add: catch_error_def func w q ab bind_outcome_def err c)
  qed
  from direct wrapped show ?thesis by blast
qed

text \<open>
  The failing call: the controller answers \<open>125, 451322, AXIS TIMEOUT\<close>. Called on
  its own \<open>raise_error\<close> has written \<open>TB?\<close> and nothing else when it raises;
  \<open>catch_error\<close> around a method that does nothing has written \<open>AB\<close> before it
  raises.
\<close>

theorem raise_error_misses_abort_witness:
  "ESP_raise_error \<lparr>lock = False, written = [],
       incoming = [''125, 451322, AXIS TIMEOUT'' @ [CR, LF]], printed = []\<rparr>
     = (Raise (NewportErr \<lparr>err_string = ''125, 451322, AXIS TIMEOUT'', err_axis = Some ''1'',
            err_code = ''125'', err_timestamp = ''451322'', err_message = ''AXIS TIMEOUT''\<rparr>),
        \<lparr>lock = False, written = [''TB?'' @ [CR]], incoming = [], printed = []\<rparr>)
   \<and> catch_error (\<lambda>self s. (Return (), s)) \<lparr>axis = 1\<rparr>
       \<lparr>lock = False, written = [],
          incoming = [''125, 451322, AXIS TIMEOUT'' @ [CR, LF]], printed = []\<rparr>
     = (Raise (NewportErr \<lparr>err_string = ''125, 451322, AXIS TIMEOUT'', err_axis = Some ''1'',
            err_code = ''125'', err_timestamp = ''451322'', err_message = ''AXIS TIMEOUT''\<rparr>),
        \<lparr>lock = False, written = [''TB?'' @ [CR], ''TB?'' @ [CR], ''AB'' @ [CR]],
           incoming = [], printed = []\<rparr>)"
  using raise_error_misses_abort
    [where s = "\<lparr>lock = False, written = [],
              incoming = [''125, 451322, AXIS TIMEOUT'' @ [CR, LF]], printed = []\<rparr>"
       and err = "''125, 451322, AXIS TIMEOUT''"
       and ?s1.0 = "\<lparr>lock = False, written = [], incoming = [], printed = []\<rparr>"
       and func = "\<lambda>self s. (Return (), s)" and self = "\<lparr>axis = 1\<rparr>"
       and ?s0.0 = "\<lparr>lock = False, written = [],
              incoming = [''125, 451322, AXIS TIMEOUT'' @ [CR, LF]], printed = []\<rparr>"
       and x = "()"]
  by (simp add: ESP_read_def ser_readline_def raise_NewportError_def NewportError_init_def)

end
